theory Spec2Isabelle
  imports Main
begin

section \<open>JavaScript values as the servers see them\<close>

text \<open>
  Strings are lists of 8-bit characters: the strings whose UTF-16 code units are all below
  256. The pictographs in two fixed texts of the source lie outside; they are written as
  their UTF-8 bytes. A Number is kept by its canonical JavaScript rendering (the result of
  \<^verbatim>\<open>String(n)\<close>), so no floating-point arithmetic is needed: the servers only echo
  numbers, test them for truthiness and finiteness, and splice them into messages.
\<close>

datatype js_number = Finite string | PosInfinity | NegInfinity | NaN

text \<open>
  A value produced by \<^verbatim>\<open>JSON.parse\<close>. \<open>JObj\<close> lists the own properties of the
  parsed object, each key once. The JavaScript value \<^verbatim>\<open>undefined\<close> is \<open>None\<close> of
  \<open>json option\<close>.
\<close>

datatype json =
    JNull
  | JBool bool
  | JNum js_number
  | JStr string
  | JArr "json list"
  | JObj "(string \<times> json) list"

type_synonym jsval = "json option"

fun number_to_string :: "js_number \<Rightarrow> string" where
  "number_to_string (Finite s) = s"
| "number_to_string PosInfinity = ''Infinity''"
| "number_to_string NegInfinity = ''-Infinity''"
| "number_to_string NaN = ''NaN''"

text \<open>\<^verbatim>\<open>Number.isFinite\<close> on a Number.\<close>

fun number_is_finite :: "js_number \<Rightarrow> bool" where
  "number_is_finite (Finite s) = True"
| "number_is_finite PosInfinity = False"
| "number_is_finite NegInfinity = False"
| "number_is_finite NaN = False"

text \<open>
  Truthiness, as \<^verbatim>\<open>||\<close>, \<^verbatim>\<open>!\<close> and \<^verbatim>\<open>if\<close> test it: \<^verbatim>\<open>undefined\<close>,
  \<^verbatim>\<open>null\<close>, \<^verbatim>\<open>false\<close>, zero, \<^verbatim>\<open>NaN\<close> and the empty string are falsy.
\<close>

fun truthy :: "jsval \<Rightarrow> bool" where
  "truthy None = False"
| "truthy (Some JNull) = False"
| "truthy (Some (JBool b)) = b"
| "truthy (Some (JNum n)) = (n \<noteq> Finite ''0'' \<and> n \<noteq> NaN)"
| "truthy (Some (JStr s)) = (s \<noteq> [])"
| "truthy (Some (JArr xs)) = True"
| "truthy (Some (JObj kvs)) = True"

text \<open>\<^verbatim>\<open>a || b\<close>.\<close>

definition js_or :: "jsval \<Rightarrow> jsval \<Rightarrow> jsval" where
  "js_or a b = (if truthy a then a else b)"

text \<open>
  Reading a property that no built-in prototype defines (\<^verbatim>\<open>method\<close>, \<^verbatim>\<open>params\<close>,
  \<^verbatim>\<open>id\<close>, \<^verbatim>\<open>name\<close>, \<^verbatim>\<open>arguments\<close>, \<^verbatim>\<open>uri\<close>, \<^verbatim>\<open>text\<close>,
  \<^verbatim>\<open>expression\<close>, \<^verbatim>\<open>profileId\<close>) from a value that is neither \<^verbatim>\<open>undefined\<close>
  nor \<^verbatim>\<open>null\<close>: only an object can hold it.
\<close>

fun get_prop :: "json \<Rightarrow> string \<Rightarrow> jsval" where
  "get_prop (JObj kvs) k = map_of kvs k"
| "get_prop v k = None"

text \<open>Optional chaining \<^verbatim>\<open>v?.k\<close>.\<close>

fun opt_chain :: "jsval \<Rightarrow> string \<Rightarrow> jsval" where
  "opt_chain None k = None"
| "opt_chain (Some JNull) k = None"
| "opt_chain (Some v) k = get_prop v k"

text \<open>
  Conversion to a string, as a template literal, \<^verbatim>\<open>String(v)\<close> and a property key
  perform it. An array joins its elements with commas, \<^verbatim>\<open>null\<close> elements giving the
  empty string. A parsed object renders as \<^verbatim>\<open>[object Object]\<close> unless it has an own
  property \<^verbatim>\<open>toString\<close>: that property, not being callable, makes the conversion
  throw a TypeError, returned here as \<open>Inl\<close> of its message.
\<close>

definition not_primitive :: string where
  "not_primitive = ''Cannot convert object to primitive value''"

fun json_to_string :: "json \<Rightarrow> string + string"
  and join_elements :: "json list \<Rightarrow> string + string"
  where
  "json_to_string JNull = Inr ''null''"
| "json_to_string (JBool b) = Inr (if b then ''true'' else ''false'')"
| "json_to_string (JNum n) = Inr (number_to_string n)"
| "json_to_string (JStr s) = Inr s"
| "json_to_string (JArr xs) = join_elements xs"
| "json_to_string (JObj kvs) =
     (if map_of kvs ''toString'' \<noteq> None then Inl not_primitive else Inr ''[object Object]'')"
| "join_elements [] = Inr []"
| "join_elements (x # xs) =
     (case (if x = JNull then Inr [] else json_to_string x) of
        Inl e \<Rightarrow> Inl e
      | Inr s \<Rightarrow>
          (if xs = [] then Inr s
           else (case join_elements xs of Inl e \<Rightarrow> Inl e | Inr t \<Rightarrow> Inr (s @ '','' @ t))))"

fun to_string :: "jsval \<Rightarrow> string + string" where
  "to_string None = Inr ''undefined''"
| "to_string (Some v) = json_to_string v"

text \<open>
  The characters that \<^verbatim>\<open>\s\<close> matches and \<^verbatim>\<open>trim\<close> removes, among 8-bit characters:
  tab, line feed, vertical tab, form feed, carriage return, space and no-break space.
\<close>

definition js_space :: "char \<Rightarrow> bool" where
  "js_space c = (c \<in> set [CHR 0x09, CHR 0x0A, CHR 0x0B, CHR 0x0C, CHR 0x0D, CHR 0x20, CHR 0xA0])"

text \<open>\<^verbatim>\<open>haystack.includes(needle)\<close>.\<close>

fun starts_with :: "string \<Rightarrow> string \<Rightarrow> bool" where
  "starts_with s [] = True"
| "starts_with [] (c # cs) = False"
| "starts_with (d # ds) (c # cs) = (d = c \<and> starts_with ds cs)"

fun str_includes :: "string \<Rightarrow> string \<Rightarrow> bool" where
  "str_includes [] needle = (needle = [])"
| "str_includes (c # cs) needle = (starts_with (c # cs) needle \<or> str_includes cs needle)"

subsection \<open>What the runtime supplies\<close>

text \<open>
  The result of evaluating an expression: a Number, or any other value, kept by its string
  conversion (\<^verbatim>\<open>undefined\<close> for the empty program, the source of a regular expression
  literal, and so on).
\<close>

datatype js_result = ResNumber js_number | ResOther string

fun result_to_string :: "js_result \<Rightarrow> string" where
  "result_to_string (ResNumber n) = number_to_string n"
| "result_to_string (ResOther s) = s"

text \<open>\<^verbatim>\<open>Number.isFinite(v)\<close>: false for everything that is not a Number.\<close>

fun is_finite :: "js_result \<Rightarrow> bool" where
  "is_finite (ResNumber n) = number_is_finite n"
| "is_finite (ResOther s) = False"

text \<open>
  The built-ins of the language and of Node.js that the servers call, as parameters of the
  model. A function that can throw returns \<open>Inl\<close> of the thrown error's message.
  \<^item> \<open>js_eval\<close>: \<^verbatim>\<open>eval(source)\<close>;
  \<^item> \<open>js_Function\<close>: \<^verbatim>\<open>Function(body)()\<close>;
  \<^item> \<open>json_parse\<close>: \<^verbatim>\<open>JSON.parse(text)\<close>;
  \<^item> \<open>stringify\<close>: \<^verbatim>\<open>JSON.stringify(value, null, 2)\<close>;
  \<^item> \<open>now_iso\<close>: \<^verbatim>\<open>new Date().toISOString()\<close>;
  \<^item> \<open>uptime\<close>: \<^verbatim>\<open>process.uptime()\<close>.
\<close>

record runtime =
  js_eval :: "string \<Rightarrow> string + js_result"
  js_Function :: "string \<Rightarrow> string + js_result"
  json_parse :: "string \<Rightarrow> string + json"
  stringify :: "json \<Rightarrow> string"
  now_iso :: string
  uptime :: js_number

section \<open>Envelopes\<close>

text \<open>
  The fields that \<^verbatim>\<open>handleRequest\<close> takes out of a request: \<^verbatim>\<open>method\<close>,
  \<^verbatim>\<open>params\<close> and \<^verbatim>\<open>id\<close>. Each may be missing or hold any parsed value; the
  \<^verbatim>\<open>jsonrpc\<close> field of a request is never read.
\<close>

record MCPRequest =
  req_method :: jsval
  req_params :: jsval
  req_id :: jsval

record rpc_error =
  err_code :: int
  err_message :: string
  err_data :: "string option"

text \<open>
  A response as the object literal builds it: \<open>None\<close> is a field that the literal does not
  mention or sets to \<^verbatim>\<open>undefined\<close> (serialisation leaves both out).
\<close>

record MCPResponse =
  resp_jsonrpc :: string
  resp_id :: jsval
  resp_result :: jsval
  resp_error :: "rpc_error option"

definition success :: "jsval \<Rightarrow> json \<Rightarrow> MCPResponse" where
  "success rid r = \<lparr>resp_jsonrpc = ''2.0'', resp_id = rid, resp_result = Some r, resp_error = None\<rparr>"

definition failure :: "jsval \<Rightarrow> int \<Rightarrow> string \<Rightarrow> string option \<Rightarrow> MCPResponse" where
  "failure rid c m d = \<lparr>resp_jsonrpc = ''2.0'', resp_id = rid, resp_result = None,
     resp_error = Some \<lparr>err_code = c, err_message = m, err_data = d\<rparr>\<rparr>"

text \<open>A content block \<^verbatim>\<open>{ type: "text", text }\<close>.\<close>

definition text_block :: "string \<Rightarrow> json" where
  "text_block s = JObj [(''type'', JStr ''text''), (''text'', JStr s)]"

definition tool_content :: "json list \<Rightarrow> json" where
  "tool_content blocks = JObj [(''content'', JArr blocks)]"

text \<open>
  The message of the TypeError raised when \<^verbatim>\<open>const { ... } = v\<close> meets \<^verbatim>\<open>undefined\<close>
  or \<^verbatim>\<open>null\<close>, in the words of Node.js for the source as written.
\<close>

definition cannot_destructure :: "string \<Rightarrow> string \<Rightarrow> jsval \<Rightarrow> string" where
  "cannot_destructure prop var v =
     ''Cannot destructure property '' @ [CHR 0x27] @ prop @ [CHR 0x27] @ '' of '' @ [CHR 0x27] @ var
       @ [CHR 0x27] @ '' as it is '' @ (if v = None then ''undefined'' else ''null'') @ ''.''"

text \<open>
  \<^verbatim>\<open>const { method, params, id } = request\<close>, the first statement of
  \<^verbatim>\<open>handleRequest\<close>, outside its \<^verbatim>\<open>try\<close>: it throws when the parsed line is
  \<^verbatim>\<open>null\<close>.
\<close>

fun destructure_request :: "json \<Rightarrow> string + MCPRequest" where
  "destructure_request JNull = Inl (cannot_destructure ''method'' ''request'' (Some JNull))"
| "destructure_request v =
     Inr \<lparr>req_method = get_prop v ''method'', req_params = get_prop v ''params'',
          req_id = get_prop v ''id''\<rparr>"

section \<open>SimpleMCPServer (simple-server.ts)\<close>

record tool =
  tool_name :: string
  tool_description :: string
  tool_inputSchema :: json

record resource =
  res_uri :: string
  res_mimeType :: string
  res_name :: string
  res_description :: string

definition tool_json :: "tool \<Rightarrow> json" where
  "tool_json t = JObj [(''name'', JStr (tool_name t)), (''description'', JStr (tool_description t)),
     (''inputSchema'', tool_inputSchema t)]"

definition resource_json :: "resource \<Rightarrow> json" where
  "resource_json r = JObj [(''uri'', JStr (res_uri r)), (''mimeType'', JStr (res_mimeType r)),
     (''name'', JStr (res_name r)), (''description'', JStr (res_description r))]"

definition simple_tools :: "tool list" where
  "simple_tools =
   [\<lparr>tool_name = ''echo'', tool_description = ''Echo back the provided text'',
      tool_inputSchema = JObj [(''type'', JStr ''object''),
        (''properties'', JObj [(''text'', JObj [(''type'', JStr ''string''),
           (''description'', JStr ''Text to echo back'')])]),
        (''required'', JArr [JStr ''text''])]\<rparr>,
    \<lparr>tool_name = ''get_current_time'', tool_description = ''Get the current date and time'',
      tool_inputSchema = JObj [(''type'', JStr ''object''), (''properties'', JObj [])]\<rparr>,
    \<lparr>tool_name = ''calculate'', tool_description = ''Perform basic arithmetic calculations'',
      tool_inputSchema = JObj [(''type'', JStr ''object''),
        (''properties'', JObj [(''expression'', JObj [(''type'', JStr ''string''),
           (''description'', JStr ''Mathematical expression to evaluate'')])]),
        (''required'', JArr [JStr ''expression''])]\<rparr>]"

definition simple_resources :: "resource list" where
  "simple_resources =
   [\<lparr>res_uri = ''server://info'', res_mimeType = ''application/json'',
      res_name = ''Server Information'', res_description = ''Information about this MCP server''\<rparr>,
    \<lparr>res_uri = ''server://capabilities'', res_mimeType = ''application/json'',
      res_name = ''Server Capabilities'',
      res_description = ''Capabilities supported by this MCP server''\<rparr>]"

text \<open>The characters that the calculator's pattern \<^verbatim>\<open>[^0-9+\-*/().\s]\<close> does not match.\<close>

definition allowed_char :: "char \<Rightarrow> bool" where
  "allowed_char c = (c \<in> set ''0123456789+-*/().'' \<or> js_space c)"

text \<open>\<^verbatim>\<open>expression.replace(/[^0-9+\-*/().\s]/g, "")\<close>.\<close>

definition sanitize :: "string \<Rightarrow> string" where
  "sanitize expression = filter allowed_char expression"

definition replace_not_function :: string where
  "replace_not_function = ''expression.replace is not a function''"

text \<open>
  The \<^verbatim>\<open>calculate\<close> case of \<^verbatim>\<open>handleToolCall\<close>. A truthy \<^verbatim>\<open>expression\<close> that is
  not a string has no \<^verbatim>\<open>replace\<close> method; the call throws into the \<^verbatim>\<open>catch\<close>.
\<close>

definition simple_calculate :: "runtime \<Rightarrow> jsval \<Rightarrow> jsval \<Rightarrow> MCPResponse" where
  "simple_calculate rt args rid =
     (case js_or (opt_chain args ''expression'') (Some (JStr [])) of
        Some (JStr expression) \<Rightarrow>
          (let sanitized = sanitize expression in
           case js_eval rt sanitized of
             Inl msg \<Rightarrow> failure rid (- 32603) ''Calculation error'' (Some msg)
           | Inr r \<Rightarrow>
               success rid (tool_content [text_block (expression @ '' = '' @ result_to_string r)]))
      | _ \<Rightarrow> failure rid (- 32603) ''Calculation error'' (Some replace_not_function))"

text \<open>
  \<^verbatim>\<open>handleToolCall\<close>: \<open>Inl\<close> is an exception that leaves the function (the
  destructuring of missing \<^verbatim>\<open>params\<close>, or a value that cannot be turned into a string).
\<close>

definition simple_handleToolCall :: "runtime \<Rightarrow> jsval \<Rightarrow> jsval \<Rightarrow> string + MCPResponse" where
  "simple_handleToolCall rt params rid =
     (if params = None \<or> params = Some JNull then Inl (cannot_destructure ''name'' ''params'' params)
      else
        (let name = get_prop (the params) ''name'';
             args = get_prop (the params) ''arguments'' in
         if name = Some (JStr ''echo'') then
           (case to_string (js_or (opt_chain args ''text'') (Some (JStr []))) of
              Inl e \<Rightarrow> Inl e
            | Inr t \<Rightarrow> Inr (success rid (tool_content [text_block (''Echo: '' @ t)])))
         else if name = Some (JStr ''get_current_time'') then
           Inr (success rid (tool_content [text_block (''Current time: '' @ now_iso rt)]))
         else if name = Some (JStr ''calculate'') then Inr (simple_calculate rt args rid)
         else
           (case to_string name of
              Inl e \<Rightarrow> Inl e
            | Inr n \<Rightarrow> Inr (failure rid (- 32601) (''Unknown tool: '' @ n) None))))"

definition resource_contents :: "string \<Rightarrow> string \<Rightarrow> string option \<Rightarrow> json" where
  "resource_contents u mime body =
     JObj [(''contents'', JArr [JObj ([(''uri'', JStr u), (''mimeType'', JStr mime)]
        @ (case body of None \<Rightarrow> [] | Some t \<Rightarrow> [(''text'', JStr t)]))])]"

definition simple_handleResourceRead :: "runtime \<Rightarrow> jsval \<Rightarrow> jsval \<Rightarrow> string + MCPResponse" where
  "simple_handleResourceRead rt params rid =
     (if params = None \<or> params = Some JNull then Inl (cannot_destructure ''uri'' ''params'' params)
      else
        (let uri = get_prop (the params) ''uri'' in
         if uri = Some (JStr ''server://info'') then
           Inr (success rid (resource_contents ''server://info'' ''application/json''
             (Some (stringify rt (JObj [(''name'', JStr ''MCP Server Connection (Simple)''),
                (''version'', JStr ''1.0.0''),
                (''description'', JStr ''A simple TypeScript MCP server''),
                (''uptime'', JNum (uptime rt))])))))
         else if uri = Some (JStr ''server://capabilities'') then
           Inr (success rid (resource_contents ''server://capabilities'' ''application/json''
             (Some (stringify rt (JObj [
                (''tools'', JArr (map (\<lambda>t. JObj [(''name'', JStr (tool_name t)),
                    (''description'', JStr (tool_description t))]) simple_tools)),
                (''resources'', JArr (map (\<lambda>r. JObj [(''uri'', JStr (res_uri r)),
                    (''name'', JStr (res_name r))]) simple_resources))])))))
         else
           (case to_string uri of
              Inl e \<Rightarrow> Inl e
            | Inr u \<Rightarrow> Inr (failure rid (- 32602) (''Unknown resource: '' @ u) None))))"

text \<open>
  The \<^verbatim>\<open>catch\<close> of \<^verbatim>\<open>handleRequest\<close>: every exception raised under the \<^verbatim>\<open>try\<close>
  becomes the error -32603 with the exception's message as \<^verbatim>\<open>data\<close>.
\<close>

definition catch_internal :: "jsval \<Rightarrow> string + MCPResponse \<Rightarrow> MCPResponse" where
  "catch_internal rid r =
     (case r of Inl msg \<Rightarrow> failure rid (- 32603) ''Internal error'' (Some msg) | Inr resp \<Rightarrow> resp)"

definition initialize_result :: "string \<Rightarrow> string \<Rightarrow> json" where
  "initialize_result name version =
     JObj [(''protocolVersion'', JStr ''2024-11-05''),
           (''capabilities'', JObj [(''tools'', JObj []), (''resources'', JObj [])]),
           (''serverInfo'', JObj [(''name'', JStr name), (''version'', JStr version)])]"

definition method_not_found :: "jsval \<Rightarrow> jsval \<Rightarrow> string + MCPResponse" where
  "method_not_found method rid =
     (case to_string method of
        Inl e \<Rightarrow> Inl e
      | Inr m \<Rightarrow> Inr (failure rid (- 32601) (''Method not found: '' @ m) None))"

definition simple_handleRequest :: "runtime \<Rightarrow> MCPRequest \<Rightarrow> MCPResponse" where
  "simple_handleRequest rt request =
     (let method = req_method request; params = req_params request; rid = req_id request in
      catch_internal rid
        (if method = Some (JStr ''initialize'') then
           Inr (success rid (initialize_result ''mcp-server-connection'' ''1.0.0''))
         else if method = Some (JStr ''tools/list'') then
           Inr (success rid (JObj [(''tools'', JArr (map tool_json simple_tools))]))
         else if method = Some (JStr ''resources/list'') then
           Inr (success rid (JObj [(''resources'', JArr (map resource_json simple_resources))]))
         else if method = Some (JStr ''tools/call'') then simple_handleToolCall rt params rid
         else if method = Some (JStr ''resources/read'') then simple_handleResourceRead rt params rid
         else method_not_found method rid))"

section \<open>StandaloneProfileServer (standalone-profile-server.ts)\<close>

record project =
  proj_name :: string
  proj_status :: string
  proj_completion :: nat

record ProfileData =
  pd_id :: string
  pd_name :: string
  pd_email :: string
  pd_department :: string
  pd_role :: string
  pd_joinDate :: string
  pd_avatar :: string
  pd_skills :: "string list"
  pd_projects :: "project list"

definition profile_default :: ProfileData where
  "profile_default =
   \<lparr>pd_id = ''EMP001'', pd_name = ''Sarah Johnson'', pd_email = ''sarah.johnson@techcorp.com'',
    pd_department = ''Engineering'', pd_role = ''Senior Full Stack Developer'',
    pd_joinDate = ''2021-08-15'',
    pd_avatar = ''https://images.unsplash.com/photo-1494790108755-2616b612b47c?w=150&h=150&fit=crop&crop=face'',
    pd_skills = [''TypeScript'', ''React'', ''Node.js'', ''AWS Lambda'', ''DynamoDB'', ''GraphQL'',
                 ''Docker'', ''Terraform''],
    pd_projects =
      [\<lparr>proj_name = ''MCP Server Implementation'', proj_status = ''In Progress'', proj_completion = 85\<rparr>,
       \<lparr>proj_name = ''Cloud Infrastructure Migration'', proj_status = ''Completed'', proj_completion = 100\<rparr>,
       \<lparr>proj_name = ''API Performance Optimization'', proj_status = ''In Progress'', proj_completion = 60\<rparr>,
       \<lparr>proj_name = ''Frontend Component Library'', proj_status = ''Planning'', proj_completion = 25\<rparr>]\<rparr>"

definition profile_admin :: ProfileData where
  "profile_admin =
   \<lparr>pd_id = ''ADM001'', pd_name = ''Michael Chen'', pd_email = ''michael.chen@techcorp.com'',
    pd_department = ''Operations'', pd_role = ''DevOps Engineer'', pd_joinDate = ''2020-03-10'',
    pd_avatar = ''https://images.unsplash.com/photo-1507003211169-0a1dd7228f2d?w=150&h=150&fit=crop&crop=face'',
    pd_skills = [''Kubernetes'', ''AWS'', ''Terraform'', ''Jenkins'', ''Prometheus'', ''Grafana'',
                 ''Python'', ''Bash''],
    pd_projects =
      [\<lparr>proj_name = ''Kubernetes Cluster Setup'', proj_status = ''Completed'', proj_completion = 100\<rparr>,
       \<lparr>proj_name = ''CI/CD Pipeline Enhancement'', proj_status = ''In Progress'', proj_completion = 70\<rparr>,
       \<lparr>proj_name = ''Monitoring Dashboard'', proj_status = ''Completed'', proj_completion = 100\<rparr>]\<rparr>"

text \<open>The own properties of the object literal \<^verbatim>\<open>profiles\<close>.\<close>

definition profiles :: "(string \<times> ProfileData) list" where
  "profiles = [(''default'', profile_default), (''admin'', profile_admin)]"

text \<open>
  The literal inherits from \<^verbatim>\<open>Object.prototype\<close>, so \<^verbatim>\<open>profiles[key]\<close> also
  answers for the names below, each with a function (or, for \<^verbatim>\<open>__proto__\<close>, with the
  prototype object): truthy values that are no profile records.
\<close>

definition object_prototype_keys :: "string list" where
  "object_prototype_keys =
   [''constructor'', ''__defineGetter__'', ''__defineSetter__'', ''hasOwnProperty'',
    ''__lookupGetter__'', ''__lookupSetter__'', ''isPrototypeOf'', ''propertyIsEnumerable'',
    ''toString'', ''valueOf'', ''__proto__'', ''toLocaleString'']"

datatype profile_slot = Own ProfileData | Inherited string

definition profiles_get :: "string \<Rightarrow> profile_slot option" where
  "profiles_get key =
     (case map_of profiles key of
        Some p \<Rightarrow> Some (Own p)
      | None \<Rightarrow> (if key \<in> set object_prototype_keys then Some (Inherited key) else None))"

text \<open>
  \<^verbatim>\<open>getProfileSync\<close>. Its argument is turned into a string for the log line and as the
  property key; \<^verbatim>\<open>profiles[profileId] || profiles["default"]\<close> follows.
\<close>

definition getProfileSync :: "jsval \<Rightarrow> string + profile_slot" where
  "getProfileSync profileId =
     (case to_string profileId of
        Inl e \<Rightarrow> Inl e
      | Inr key \<Rightarrow>
          (case profiles_get key of Some v \<Rightarrow> Inr v | None \<Rightarrow> Inr (Own profile_default)))"

definition reading_map :: string where
  "reading_map = ''Cannot read properties of undefined (reading '' @ [CHR 0x27] @ ''map''
     @ [CHR 0x27] @ '')''"

text \<open>
  \<^verbatim>\<open>generateProfileHTML\<close>. The page is a fixed template around the record's fields; its
  text is the parameter \<open>html\<close>. Given a member of \<^verbatim>\<open>Object.prototype\<close> instead of a
  record, the template throws at \<^verbatim>\<open>profile.skills.map\<close>.
\<close>

fun generateProfileHTML :: "(ProfileData \<Rightarrow> string) \<Rightarrow> profile_slot \<Rightarrow> string + string" where
  "generateProfileHTML html (Own p) = Inr (html p)"
| "generateProfileHTML html (Inherited k) = Inl reading_map"

text \<open>Decimal digits of a natural number, as \<^verbatim>\<open>${xs.length}\<close> prints it.\<close>

function show_nat :: "nat \<Rightarrow> string" where
  "show_nat n =
     (if n < 10 then [char_of (48 + n)] else show_nat (n div 10) @ [char_of (48 + n mod 10)])"
  by pat_completeness auto
termination
  by (relation "measure id") auto

declare show_nat.simps [simp del]

record server_config =
  serverName :: string
  serverVersion :: string
  defaultProfileId :: string

text \<open>\<^verbatim>\<open>process.env.X || fallback\<close>: an unset or empty variable gives the fallback.\<close>

fun env_or :: "string option \<Rightarrow> string \<Rightarrow> string" where
  "env_or None d = d"
| "env_or (Some v) d = (if v = [] then d else v)"

text \<open>The constructor, reading the environment.\<close>

definition standalone_constructor :: "(string \<Rightarrow> string option) \<Rightarrow> server_config" where
  "standalone_constructor env =
     \<lparr>serverName = env_or (env ''MCP_SERVER_NAME'') ''profile-mcp-server'',
      serverVersion = env_or (env ''MCP_SERVER_VERSION'') ''1.0.0'',
      defaultProfileId = env_or (env ''DEFAULT_PROFILE_ID'') ''default''\<rparr>"

definition standalone_tools :: "tool list" where
  "standalone_tools =
   [\<lparr>tool_name = ''get_profile'',
      tool_description = ''Fetch and display user profile information from AWS with a beautiful HTML interface'',
      tool_inputSchema = JObj [(''type'', JStr ''object''),
        (''properties'', JObj [(''profileId'', JObj [(''type'', JStr ''string''),
           (''description'', JStr (''The profile ID to fetch (optional, defaults to ''
               @ [CHR 0x27] @ ''default'' @ [CHR 0x27] @ '')''))])])]\<rparr>]"

definition standalone_resources :: "resource list" where
  "standalone_resources =
   [\<lparr>res_uri = ''profile://data'', res_mimeType = ''application/json'',
      res_name = ''Profile Data Resource'', res_description = ''Raw profile data from AWS API''\<rparr>,
    \<lparr>res_uri = ''profile://html'', res_mimeType = ''text/html'',
      res_name = ''Profile HTML Resource'', res_description = ''Formatted HTML profile display''\<rparr>]"

text \<open>
  The text block of a fetched profile. The four pictographs of the source are written as
  their UTF-8 bytes.
\<close>

definition profile_summary :: "ProfileData \<Rightarrow> string" where
  "profile_summary p =
     [CHR 0xE2, CHR 0x9C, CHR 0x85] @ '' Successfully fetched profile for '' @ pd_name p
     @ [CHR 0x0A, CHR 0xF0, CHR 0x9F, CHR 0x94, CHR 0x97] @ '' Profile ID: '' @ pd_id p
     @ [CHR 0x0A, CHR 0xF0, CHR 0x9F, CHR 0x93, CHR 0x8A] @ '' Projects: ''
     @ show_nat (length (pd_projects p))
     @ [CHR 0x0A, CHR 0xF0, CHR 0x9F, CHR 0x8E, CHR 0xAF] @ '' Skills: ''
     @ show_nat (length (pd_skills p))"

text \<open>The result of \<^verbatim>\<open>get_profile\<close> for a record: a text block and a resource block.\<close>

definition profile_result :: "string \<Rightarrow> ProfileData \<Rightarrow> json" where
  "profile_result htmlContent p =
     tool_content [text_block (profile_summary p),
       JObj [(''type'', JStr ''resource''),
             (''resource'', JObj [(''uri'', JStr ''profile://html''), (''mimeType'', JStr ''text/html''),
                                  (''text'', JStr htmlContent)])]]"

definition reading_length :: string where
  "reading_length = ''Cannot read properties of undefined (reading '' @ [CHR 0x27] @ ''length''
     @ [CHR 0x27] @ '')''"

text \<open>
  \<^verbatim>\<open>handleGetProfile\<close>, with its \<^verbatim>\<open>catch\<close>. The summary is built after the page; a
  member of \<^verbatim>\<open>Object.prototype\<close> would fail there too, at
  \<^verbatim>\<open>profile.projects.length\<close>.
\<close>

definition handleGetProfile ::
  "server_config \<Rightarrow> (ProfileData \<Rightarrow> string) \<Rightarrow> jsval \<Rightarrow> jsval \<Rightarrow> MCPResponse" where
  "handleGetProfile cfg html args rid =
     (let profileId = js_or (opt_chain args ''profileId'') (Some (JStr (defaultProfileId cfg))) in
      case getProfileSync profileId of
        Inl msg \<Rightarrow> failure rid (- 32603) ''Failed to fetch profile'' (Some msg)
      | Inr profile \<Rightarrow>
          (case generateProfileHTML html profile of
             Inl msg \<Rightarrow> failure rid (- 32603) ''Failed to fetch profile'' (Some msg)
           | Inr htmlContent \<Rightarrow>
               (case profile of
                  Own p \<Rightarrow> success rid (profile_result htmlContent p)
                | Inherited k \<Rightarrow>
                    failure rid (- 32603) ''Failed to fetch profile'' (Some reading_length))))"

definition standalone_handleToolCall ::
  "server_config \<Rightarrow> (ProfileData \<Rightarrow> string) \<Rightarrow> jsval \<Rightarrow> jsval \<Rightarrow> string + MCPResponse" where
  "standalone_handleToolCall cfg html params rid =
     (if params = None \<or> params = Some JNull then Inl (cannot_destructure ''name'' ''params'' params)
      else
        (let name = get_prop (the params) ''name'';
             args = get_prop (the params) ''arguments'' in
         if name = Some (JStr ''get_profile'') then Inr (handleGetProfile cfg html args rid)
         else
           (case to_string name of
              Inl e \<Rightarrow> Inl e
            | Inr n \<Rightarrow> Inr (failure rid (- 32601) (''Unknown tool: '' @ n) None))))"

definition project_json :: "project \<Rightarrow> json" where
  "project_json q = JObj [(''name'', JStr (proj_name q)), (''status'', JStr (proj_status q)),
     (''completion'', JNum (Finite (show_nat (proj_completion q))))]"

definition profile_json :: "ProfileData \<Rightarrow> json" where
  "profile_json p =
     JObj [(''id'', JStr (pd_id p)), (''name'', JStr (pd_name p)), (''email'', JStr (pd_email p)),
           (''department'', JStr (pd_department p)), (''role'', JStr (pd_role p)),
           (''joinDate'', JStr (pd_joinDate p)), (''avatar'', JStr (pd_avatar p)),
           (''skills'', JArr (map JStr (pd_skills p))),
           (''projects'', JArr (map project_json (pd_projects p)))]"

text \<open>
  \<^verbatim>\<open>JSON.stringify(profile, null, 2)\<close>: a function has no JSON text (the field is then
  left out), and \<^verbatim>\<open>Object.prototype\<close> has no enumerable property.
\<close>

fun stringify_slot :: "runtime \<Rightarrow> profile_slot \<Rightarrow> string option" where
  "stringify_slot rt (Own p) = Some (stringify rt (profile_json p))"
| "stringify_slot rt (Inherited k) = (if k = ''__proto__'' then Some ''{}'' else None)"

definition standalone_handleResourceRead ::
  "runtime \<Rightarrow> server_config \<Rightarrow> (ProfileData \<Rightarrow> string) \<Rightarrow> jsval \<Rightarrow> jsval \<Rightarrow> string + MCPResponse"
  where
  "standalone_handleResourceRead rt cfg html params rid =
     (if params = None \<or> params = Some JNull then Inl (cannot_destructure ''uri'' ''params'' params)
      else
        (let uri = get_prop (the params) ''uri'' in
         Inr (case
           (if uri = Some (JStr ''profile://data'') then
              (case getProfileSync (Some (JStr (defaultProfileId cfg))) of
                 Inl e \<Rightarrow> Inl e
               | Inr profile \<Rightarrow>
                   Inr (success rid (resource_contents ''profile://data'' ''application/json''
                     (stringify_slot rt profile))))
            else if uri = Some (JStr ''profile://html'') then
              (case getProfileSync (Some (JStr (defaultProfileId cfg))) of
                 Inl e \<Rightarrow> Inl e
               | Inr profile \<Rightarrow>
                   (case generateProfileHTML html profile of
                      Inl e \<Rightarrow> Inl e
                    | Inr htmlContent \<Rightarrow>
                        Inr (success rid (resource_contents ''profile://html'' ''text/html''
                          (Some htmlContent)))))
            else
              (case to_string uri of
                 Inl e \<Rightarrow> Inl e
               | Inr u \<Rightarrow> Inr (failure rid (- 32602) (''Unknown resource: '' @ u) None)))
          of
            Inl msg \<Rightarrow> failure rid (- 32603) ''Failed to read resource'' (Some msg)
          | Inr resp \<Rightarrow> resp)))"

definition standalone_handleRequest ::
  "runtime \<Rightarrow> server_config \<Rightarrow> (ProfileData \<Rightarrow> string) \<Rightarrow> MCPRequest \<Rightarrow> MCPResponse" where
  "standalone_handleRequest rt cfg html request =
     (let method = req_method request; params = req_params request; rid = req_id request in
      catch_internal rid
        (if method = Some (JStr ''initialize'') then
           Inr (success rid (initialize_result (serverName cfg) (serverVersion cfg)))
         else if method = Some (JStr ''tools/list'') then
           Inr (success rid (JObj [(''tools'', JArr (map tool_json standalone_tools))]))
         else if method = Some (JStr ''resources/list'') then
           Inr (success rid (JObj [(''resources'', JArr (map resource_json standalone_resources))]))
         else if method = Some (JStr ''tools/call'') then standalone_handleToolCall cfg html params rid
         else if method = Some (JStr ''resources/read'') then
           standalone_handleResourceRead rt cfg html params rid
         else method_not_found method rid))"

section \<open>The stream transport (startStdioServer of both classes)\<close>

text \<open>\<^verbatim>\<open>buffer.split('\n')\<close>: never empty; the last piece is what follows the last newline.\<close>

fun split_newline :: "string \<Rightarrow> string list" where
  "split_newline [] = [[]]"
| "split_newline (c # cs) =
     (if c = CHR 0x0A then [] # split_newline cs
      else (let r = split_newline cs in (c # hd r) # tl r))"

text \<open>\<^verbatim>\<open>line.trim()\<close> is falsy: the line holds nothing but white space.\<close>

definition blank :: "string \<Rightarrow> bool" where
  "blank line = list_all js_space line"

text \<open>The envelope written from the \<^verbatim>\<open>catch\<close> of the line loop: it has no \<^verbatim>\<open>id\<close>.\<close>

definition parse_error_response :: "string \<Rightarrow> MCPResponse" where
  "parse_error_response msg =
     \<lparr>resp_jsonrpc = ''2.0'', resp_id = None, resp_result = None,
      resp_error = Some \<lparr>err_code = - 32700, err_message = ''Parse error'', err_data = Some msg\<rparr>\<rparr>"

text \<open>
  The body of the line loop, as the envelopes it writes to the output. \<open>handle\<close> is the
  class's \<^verbatim>\<open>handleRequest\<close>; the exception of a parsed \<^verbatim>\<open>null\<close> lands in the same
  \<^verbatim>\<open>catch\<close> as a syntax error.
\<close>

definition process_line :: "runtime \<Rightarrow> (MCPRequest \<Rightarrow> MCPResponse) \<Rightarrow> string \<Rightarrow> MCPResponse list" where
  "process_line rt handle line =
     (if blank line then []
      else
        (case json_parse rt line of
           Inl msg \<Rightarrow> [parse_error_response msg]
         | Inr v \<Rightarrow>
             (case destructure_request v of
                Inl msg \<Rightarrow> [parse_error_response msg]
              | Inr request \<Rightarrow> [handle request])))"

fun process_lines :: "runtime \<Rightarrow> (MCPRequest \<Rightarrow> MCPResponse) \<Rightarrow> string list \<Rightarrow> MCPResponse list" where
  "process_lines rt handle [] = []"
| "process_lines rt handle (line # rest) = process_line rt handle line @ process_lines rt handle rest"

text \<open>
  The process: the pending \<^verbatim>\<open>buffer\<close>, and the exit code once \<^verbatim>\<open>process.exit\<close> has
  been called. Its inputs are the events of the standard input and the interrupt signal.
\<close>

record stdio_state =
  buffer :: string
  exited :: "int option"

datatype stdio_event = Data string | End | SIGINT

definition initial_stdio :: stdio_state where
  "initial_stdio = \<lparr>buffer = [], exited = None\<rparr>"

fun stdio_step ::
  "runtime \<Rightarrow> (MCPRequest \<Rightarrow> MCPResponse) \<Rightarrow> stdio_state \<Rightarrow> stdio_event \<Rightarrow> stdio_state \<times> MCPResponse list"
  where
  "stdio_step rt handle st ev =
     (if exited st \<noteq> None then (st, [])
      else
        (case ev of
           Data chunk \<Rightarrow>
             (let lines = split_newline (buffer st @ chunk) in
              (st\<lparr>buffer := last lines\<rparr>, process_lines rt handle (butlast lines)))
         | End \<Rightarrow> (st\<lparr>exited := Some 0\<rparr>, [])
         | SIGINT \<Rightarrow> (st\<lparr>exited := Some 0\<rparr>, [])))"

declare stdio_step.simps [simp del]

text \<open>The events of a run, one after the other; the envelopes written, in order.\<close>

fun stdio_run ::
  "runtime \<Rightarrow> (MCPRequest \<Rightarrow> MCPResponse) \<Rightarrow> stdio_state \<Rightarrow> stdio_event list
     \<Rightarrow> stdio_state \<times> MCPResponse list" where
  "stdio_run rt handle st [] = (st, [])"
| "stdio_run rt handle st (ev # evs) =
     (let (st1, out1) = stdio_step rt handle st ev;
          (st2, out2) = stdio_run rt handle st1 evs
      in (st2, out1 @ out2))"

text \<open>\<^verbatim>\<open>startStdioServer\<close> of each class: the run from the empty buffer.\<close>

definition simple_startStdioServer ::
  "runtime \<Rightarrow> stdio_event list \<Rightarrow> stdio_state \<times> MCPResponse list" where
  "simple_startStdioServer rt events = stdio_run rt (simple_handleRequest rt) initial_stdio events"

definition standalone_startStdioServer ::
  "runtime \<Rightarrow> server_config \<Rightarrow> (ProfileData \<Rightarrow> string) \<Rightarrow> stdio_event list
     \<Rightarrow> stdio_state \<times> MCPResponse list" where
  "standalone_startStdioServer rt cfg html events =
     stdio_run rt (standalone_handleRequest rt cfg html) initial_stdio events"

section \<open>The SDK-based server (index.ts): the tool handler\<close>

datatype ErrorCode = MethodNotFound | InvalidParams | InternalError

text \<open>
  What a handler throws: an \<^verbatim>\<open>McpError\<close> built from a code and a message, or a plain
  TypeError with its message.
\<close>

datatype thrown = McpError ErrorCode string | TypeError string

text \<open>\<^verbatim>\<open>String(error)\<close> of a TypeError.\<close>

definition type_error_string :: "string \<Rightarrow> string" where
  "type_error_string msg = ''TypeError: '' @ msg"

definition invalid_characters :: string where
  "invalid_characters =
     ''Invalid characters in expression. Only numbers, +, -, *, /, (, ), and spaces allowed.''"

text \<open>The program text handed to \<^verbatim>\<open>Function\<close>.\<close>

definition function_body :: "string \<Rightarrow> string" where
  "function_body sanitizedExpression =
     [CHR 0x22] @ ''use strict'' @ [CHR 0x22] @ ''; return ('' @ sanitizedExpression @ '')''"

text \<open>
  The inner \<^verbatim>\<open>try\<close> of the \<^verbatim>\<open>calculate\<close> case: \<open>Inl\<close> is the message of the error
  thrown under it. \<open>expression\<close> is truthy here.
\<close>

definition index_try_calculate :: "runtime \<Rightarrow> json \<Rightarrow> string + json" where
  "index_try_calculate rt expression =
     (case expression of
        JStr e \<Rightarrow>
          (let sanitizedExpression = sanitize e in
           if sanitizedExpression \<noteq> e then Inl invalid_characters
           else if str_includes sanitizedExpression ''__''
                   \<or> str_includes sanitizedExpression ''constructor''
             then Inl ''Invalid expression''
           else
             (case js_Function rt (function_body sanitizedExpression) of
                Inl msg \<Rightarrow> Inl msg
              | Inr r \<Rightarrow>
                  (if \<not> is_finite r then Inl ''Result is not a finite number''
                   else Inr (tool_content [text_block (e @ '' = '' @ result_to_string r)]))))
      | _ \<Rightarrow> Inl replace_not_function)"

definition index_calculate :: "runtime \<Rightarrow> jsval \<Rightarrow> thrown + json" where
  "index_calculate rt args =
     (let expression = opt_chain args ''expression'' in
      if \<not> truthy expression then Inl (McpError InvalidParams ''Expression parameter is required'')
      else
        (case index_try_calculate rt (the expression) of
           Inl msg \<Rightarrow> Inl (McpError InternalError (''Calculation error: '' @ msg))
         | Inr r \<Rightarrow> Inr r))"

definition index_echo :: "jsval \<Rightarrow> thrown + json" where
  "index_echo args =
     (let text = opt_chain args ''text'' in
      if \<not> truthy text then Inl (McpError InvalidParams ''Text parameter is required'')
      else
        (case to_string text of
           Inl msg \<Rightarrow> Inl (TypeError msg)
         | Inr t \<Rightarrow> Inr (tool_content [text_block (''Echo: '' @ t)])))"

text \<open>
  The outer \<^verbatim>\<open>catch\<close>: an \<^verbatim>\<open>McpError\<close> is thrown again, anything else is wrapped.
\<close>

fun rethrow :: "thrown + json \<Rightarrow> thrown + json" where
  "rethrow (Inl (TypeError msg)) =
     Inl (McpError InternalError (''Tool execution failed: '' @ type_error_string msg))"
| "rethrow r = r"

text \<open>The handler registered for \<^verbatim>\<open>CallToolRequestSchema\<close>, given \<^verbatim>\<open>request.params\<close>.\<close>

definition index_callTool :: "runtime \<Rightarrow> jsval \<Rightarrow> thrown + json" where
  "index_callTool rt params =
     (if params = None \<or> params = Some JNull
      then Inl (TypeError (cannot_destructure ''name'' ''request.params'' params))
      else
        (let name = get_prop (the params) ''name'';
             args = get_prop (the params) ''arguments'' in
         rethrow
           (if name = Some (JStr ''echo'') then index_echo args
            else if name = Some (JStr ''get_current_time'') then
              Inr (tool_content [text_block (''Current time: '' @ now_iso rt)])
            else if name = Some (JStr ''calculate'') then index_calculate rt args
            else
              (case to_string name of
                 Inl msg \<Rightarrow> Inl (TypeError msg)
               | Inr n \<Rightarrow> Inl (McpError MethodNotFound (''Unknown tool: '' @ n))))))"

section \<open>The token middleware (verifyToken)\<close>

text \<open>The flag \<^verbatim>\<open>i\<close> of the pattern: letters are compared without regard to case.\<close>

definition ascii_lower :: "char \<Rightarrow> char" where
  "ascii_lower c =
     (case map_of (zip ''ABCDEFGHIJKLMNOPQRSTUVWXYZ'' ''abcdefghijklmnopqrstuvwxyz'') c of
        Some l \<Rightarrow> l
      | None \<Rightarrow> c)"

text \<open>
  \<^verbatim>\<open>authHeader.replace(/^Bearer\s+/i, '')\<close>: the word in any letter case and all the white
  space after it are removed; a header that does not begin so is returned unchanged.
\<close>

definition strip_bearer :: "string \<Rightarrow> string" where
  "strip_bearer authHeader =
     (let rest = drop 6 authHeader in
      if map ascii_lower (take 6 authHeader) = ''bearer'' \<and> rest \<noteq> [] \<and> js_space (hd rest)
      then dropWhile js_space rest else authHeader)"

text \<open>
  The token slots of a process: the variable \<^verbatim>\<open>currentAccessToken\<close> of the server file
  and \<^verbatim>\<open>userAccessToken\<close> of getUserToken.ts, written through \<^verbatim>\<open>setUserToken\<close>.
\<close>

record token_slots =
  currentAccessToken :: "string option"
  userAccessToken :: "string option"

definition setUserToken :: "string option \<Rightarrow> token_slots \<Rightarrow> token_slots" where
  "setUserToken token st = st\<lparr>userAccessToken := token\<rparr>"

text \<open>
  \<^verbatim>\<open>verifyToken\<close> of the server with the full middleware, on the
  \<^verbatim>\<open>Authorization\<close> header of a request (\<open>None\<close> when the request has none).
\<close>

definition verifyToken :: "string option \<Rightarrow> token_slots \<Rightarrow> token_slots" where
  "verifyToken authHeader st =
     (if authHeader = None \<or> authHeader = Some [] then
        setUserToken None (st\<lparr>currentAccessToken := None\<rparr>)
      else
        (let token = strip_bearer (the authHeader) in
         if token = [] \<or> token = the authHeader then
           setUserToken None (st\<lparr>currentAccessToken := None\<rparr>)
         else setUserToken (Some token) (st\<lparr>currentAccessToken := Some token\<rparr>)))"

text \<open>
  \<^verbatim>\<open>verifyToken\<close> of enhanced-profile-server.ts, which has the variable
  \<^verbatim>\<open>currentAccessToken\<close> only.
\<close>

definition enhanced_verifyToken :: "string option \<Rightarrow> string option \<Rightarrow> string option" where
  "enhanced_verifyToken authHeader currentToken =
     (if authHeader \<noteq> None \<and> authHeader \<noteq> Some [] then Some (strip_bearer (the authHeader))
      else None)"

section \<open>get_profile of enhanced-profile-server.ts\<close>

text \<open>
  The text block of the \<^verbatim>\<open>get_profile\<close> case; \<open>html\<close> is \<^verbatim>\<open>createProfileHTML\<close>, a
  template like the one above.
\<close>

definition enhanced_profile_text :: "string \<Rightarrow> ProfileData \<Rightarrow> string" where
  "enhanced_profile_text profileHTML p =
     [CHR 0xE2, CHR 0x9C, CHR 0x85] @ '' Profile loaded for '' @ pd_name p @ '' ('' @ pd_id p
     @ '') from '' @ pd_department p @ '' department'' @ [CHR 0x0A, CHR 0x0A] @ profileHTML"

text \<open>
  The \<^verbatim>\<open>get_profile\<close> case under the handler's \<^verbatim>\<open>try\<close>; \<open>env_default\<close> is
  \<^verbatim>\<open>process.env.DEFAULT_PROFILE_ID\<close>. The table \<^verbatim>\<open>PROFILE_DATABASE\<close> has the same two
  entries as \<^verbatim>\<open>profiles\<close>.
\<close>

definition enhanced_get_profile ::
  "string option \<Rightarrow> (ProfileData \<Rightarrow> string) \<Rightarrow> jsval \<Rightarrow> thrown + json" where
  "enhanced_get_profile env_default html args =
     rethrow
       (let profileId = js_or (opt_chain args ''profileId'') (Some (JStr (env_or env_default ''default''))) in
        case to_string profileId of
          Inl msg \<Rightarrow> Inl (TypeError msg)
        | Inr key \<Rightarrow>
            (let profile = (case profiles_get key of Some v \<Rightarrow> v | None \<Rightarrow> Own profile_default) in
             case generateProfileHTML html profile of
               Inl msg \<Rightarrow> Inl (TypeError msg)
             | Inr profileHTML \<Rightarrow>
                 (case profile of
                    Own p \<Rightarrow> Inr (tool_content [text_block (enhanced_profile_text profileHTML p)])
                  | Inherited k \<Rightarrow> Inl (TypeError reading_map))))"

section \<open>Vocabulary of the properties\<close>

text \<open>A response holds exactly one of \<^verbatim>\<open>result\<close> and \<^verbatim>\<open>error\<close>.\<close>

definition exactly_one :: "MCPResponse \<Rightarrow> bool" where
  "exactly_one resp = ((resp_result resp = None) \<noteq> (resp_error resp = None))"

text \<open>A chunk of input made of whole lines, each closed by a line feed.\<close>

definition unlines :: "string list \<Rightarrow> string" where
  "unlines ls = concat (map (\<lambda>l. l @ [CHR 0x0A]) ls)"

definition no_newline :: "string \<Rightarrow> bool" where
  "no_newline l = (CHR 0x0A \<notin> set l)"

subsection \<open>A runtime for the concrete runs\<close>

definition quoted :: "string \<Rightarrow> string" where
  "quoted s = [CHR 0x22] @ s @ [CHR 0x22]"

text \<open>The line \<^verbatim>\<open>{"jsonrpc":"2.0","id":7,"method":"initialize"}\<close>.\<close>

definition initialize_line :: string where
  "initialize_line = ''{'' @ quoted ''jsonrpc'' @ '':'' @ quoted ''2.0'' @ '','' @ quoted ''id''
     @ '':7,'' @ quoted ''method'' @ '':'' @ quoted ''initialize'' @ ''}''"

text \<open>
  The concrete runs below reach the built-ins on a handful of inputs only: the programs
  \<^verbatim>\<open>1/0\<close>, \<^verbatim>\<open>2 + 3 * 4\<close> and the empty program, the lines \<^verbatim>\<open>{\<close>, \<^verbatim>\<open>null\<close>, the
  empty line and the line above. \<open>sample_runtime\<close> answers on these as Node.js does; what it
  answers elsewhere is never used.
\<close>

definition sample_runtime :: runtime where
  "sample_runtime =
     \<lparr>js_eval = (\<lambda>src. if src = [] then Inr (ResOther ''undefined'')
                       else if src = ''1/0'' then Inr (ResNumber PosInfinity)
                       else if src = ''2 + 3 * 4'' then Inr (ResNumber (Finite ''14''))
                       else Inl ''Unexpected end of input''),
      js_Function = (\<lambda>body. if body = function_body ''1/0'' then Inr (ResNumber PosInfinity)
                       else if body = function_body ''2 + 3 * 4'' then Inr (ResNumber (Finite ''14''))
                       else Inl ''Unexpected token''),
      json_parse = (\<lambda>line. if line = initialize_line
                       then Inr (JObj [(''jsonrpc'', JStr ''2.0''), (''id'', JNum (Finite ''7'')),
                                       (''method'', JStr ''initialize'')])
                       else if line = ''null'' then Inr JNull
                       else Inl ''Unexpected end of JSON input''),
      stringify = (\<lambda>v. ''{}''),
      now_iso = ''2026-01-01T00:00:00.000Z'',
      uptime = Finite ''1.5''\<rparr>"

subsection \<open>Concrete requests and settings\<close>

text \<open>
  The request \<^verbatim>\<open>tools/call\<close> of \<^verbatim>\<open>calculate\<close> with the given expression, id 1.
\<close>

definition calculate_request :: "string \<Rightarrow> MCPRequest" where
  "calculate_request expression =
     \<lparr>req_method = Some (JStr ''tools/call''),
      req_params = Some (JObj [(''name'', JStr ''calculate''),
                               (''arguments'', JObj [(''expression'', JStr expression)])]),
      req_id = Some (JNum (Finite ''1''))\<rparr>"

text \<open>The \<^verbatim>\<open>params\<close> of a call of \<^verbatim>\<open>echo\<close> with the given arguments object.\<close>

definition echo_params :: "(string \<times> json) list \<Rightarrow> json" where
  "echo_params arguments = JObj [(''name'', JStr ''echo''), (''arguments'', JObj arguments)]"

text \<open>A page template for the concrete runs.\<close>

definition sample_html :: "ProfileData \<Rightarrow> string" where
  "sample_html p = ''<h1>'' @ pd_name p @ ''</h1>''"

text \<open>The server started with \<^verbatim>\<open>DEFAULT_PROFILE_ID=admin\<close>.\<close>

definition admin_config :: server_config where
  "admin_config =
     standalone_constructor (\<lambda>v. if v = ''DEFAULT_PROFILE_ID'' then Some ''admin'' else None)"

definition no_tokens :: token_slots where
  "no_tokens = \<lparr>currentAccessToken = None, userAccessToken = None\<rparr>"

subsection \<open>The profile of a key and the token of a request\<close>

text \<open>
  The profile that a key stands for: the entry of the collection under that key, and the
  entry under \<^verbatim>\<open>default\<close> when there is none.
\<close>

definition effective_profile :: "string \<Rightarrow> ProfileData" where
  "effective_profile key = (case map_of profiles key of Some p \<Rightarrow> p | None \<Rightarrow> profile_default)"

text \<open>
  A header begins with the word \<^verbatim>\<open>Bearer\<close>, in any letter case, and one white-space
  character at least.
\<close>

definition has_bearer_prefix :: "string \<Rightarrow> bool" where
  "has_bearer_prefix h =
     (map ascii_lower (take 6 h) = ''bearer'' \<and> drop 6 h \<noteq> [] \<and> js_space (hd (drop 6 h)))"

text \<open>
  The token of a request: what follows the word and all the white space after it, when the
  header is there, begins so and something follows; no token otherwise.
\<close>

definition bearer_token :: "string option \<Rightarrow> string option" where
  "bearer_token authHeader =
     (case authHeader of
        None \<Rightarrow> None
      | Some h \<Rightarrow>
          (if has_bearer_prefix h \<and> dropWhile js_space (drop 6 h) \<noteq> []
           then Some (dropWhile js_space (drop 6 h)) else None))"

section \<open>Properties of the dispatchers\<close>

subsection \<open>Exactly one of result and error\<close>

lemma exactly_one_success: "exactly_one (success rid r)"
  by (simp add: exactly_one_def success_def)

lemma exactly_one_failure: "exactly_one (failure rid c m d)"
  by (simp add: exactly_one_def failure_def)

lemma exactly_one_catch:
  "(\<And>resp. r = Inr resp \<Longrightarrow> exactly_one resp) \<Longrightarrow> exactly_one (catch_internal rid r)"
  by (cases r) (simp_all add: catch_internal_def exactly_one_failure)

lemma simple_calculate_one: "exactly_one (simple_calculate rt args rid)"
  by (simp add: simple_calculate_def Let_def exactly_one_success exactly_one_failure
      split: option.split json.split sum.split)

lemma simple_toolcall_one:
  "simple_handleToolCall rt params rid = Inr resp \<Longrightarrow> exactly_one resp"
  by (auto simp: simple_handleToolCall_def Let_def exactly_one_success exactly_one_failure
      simple_calculate_one split: if_splits sum.splits)

lemma simple_resource_one:
  "simple_handleResourceRead rt params rid = Inr resp \<Longrightarrow> exactly_one resp"
  by (auto simp: simple_handleResourceRead_def Let_def exactly_one_success exactly_one_failure
      split: if_splits sum.splits)

lemma method_not_found_one: "method_not_found m rid = Inr resp \<Longrightarrow> exactly_one resp"
  by (auto simp: method_not_found_def exactly_one_failure split: sum.splits)

lemma getprofile_one: "exactly_one (handleGetProfile cfg html args rid)"
  by (simp add: handleGetProfile_def Let_def exactly_one_success exactly_one_failure
      split: sum.split profile_slot.split)

lemma standalone_toolcall_one:
  "standalone_handleToolCall cfg html params rid = Inr resp \<Longrightarrow> exactly_one resp"
  by (auto simp: standalone_handleToolCall_def Let_def exactly_one_failure getprofile_one
      split: if_splits sum.splits)

lemma standalone_resource_one:
  "standalone_handleResourceRead rt cfg html params rid = Inr resp \<Longrightarrow> exactly_one resp"
  by (auto simp: standalone_handleResourceRead_def Let_def exactly_one_success exactly_one_failure
      split: if_splits sum.splits)

lemma simple_one: "exactly_one (simple_handleRequest rt request)"
  unfolding simple_handleRequest_def Let_def
  by (rule exactly_one_catch)
     (auto simp: exactly_one_success
       dest: simple_toolcall_one simple_resource_one method_not_found_one split: if_splits)

lemma standalone_one: "exactly_one (standalone_handleRequest rt cfg html request)"
  unfolding standalone_handleRequest_def Let_def
  by (rule exactly_one_catch)
     (auto simp: exactly_one_success
       dest: standalone_toolcall_one standalone_resource_one method_not_found_one split: if_splits)

text \<open>
  Claim C3. Whatever the request holds (any method, known or not, any parameters, present
  or not) and whatever the runtime answers, the response of \<^verbatim>\<open>handleRequest\<close> carries
  exactly one of \<^verbatim>\<open>result\<close> and \<^verbatim>\<open>error\<close>, in SimpleMCPServer and in
  StandaloneProfileServer alike.
\<close>

theorem response_has_exactly_one_of_result_error:
  "exactly_one (simple_handleRequest rt request)
   \<and> exactly_one (standalone_handleRequest rt cfg html request)"
  by (simp add: simple_one standalone_one)

text \<open>The envelopes that the stream transport writes on its own are of the same kind.\<close>

lemma parse_error_exactly_one: "exactly_one (parse_error_response msg)"
  by (simp add: exactly_one_def parse_error_response_def)

lemma process_line_exactly_one:
  "(\<And>request. exactly_one (handle request)) \<Longrightarrow> list_all exactly_one (process_line rt handle line)"
  by (simp add: process_line_def parse_error_exactly_one split: sum.split)

subsection \<open>The id is echoed\<close>

lemma resp_id_success: "resp_id (success rid r) = rid"
  by (simp add: success_def)

lemma resp_id_failure: "resp_id (failure rid c m d) = rid"
  by (simp add: failure_def)

lemma resp_id_catch:
  "(\<And>resp. r = Inr resp \<Longrightarrow> resp_id resp = rid) \<Longrightarrow> resp_id (catch_internal rid r) = rid"
  by (cases r) (simp_all add: catch_internal_def resp_id_failure)

lemma simple_calculate_id: "resp_id (simple_calculate rt args rid) = rid"
  by (simp add: simple_calculate_def Let_def resp_id_success resp_id_failure
      split: option.split json.split sum.split)

lemma simple_toolcall_id:
  "simple_handleToolCall rt params rid = Inr resp \<Longrightarrow> resp_id resp = rid"
  by (auto simp: simple_handleToolCall_def Let_def resp_id_success resp_id_failure
      simple_calculate_id split: if_splits sum.splits)

lemma simple_resource_id:
  "simple_handleResourceRead rt params rid = Inr resp \<Longrightarrow> resp_id resp = rid"
  by (auto simp: simple_handleResourceRead_def Let_def resp_id_success resp_id_failure
      split: if_splits sum.splits)

lemma method_not_found_id: "method_not_found m rid = Inr resp \<Longrightarrow> resp_id resp = rid"
  by (auto simp: method_not_found_def resp_id_failure split: sum.splits)

lemma simple_id: "resp_id (simple_handleRequest rt request) = req_id request"
  unfolding simple_handleRequest_def Let_def
  by (rule resp_id_catch)
     (auto simp: resp_id_success
       dest: simple_toolcall_id simple_resource_id method_not_found_id split: if_splits)

lemma getprofile_id: "resp_id (handleGetProfile cfg html args rid) = rid"
  by (simp add: handleGetProfile_def Let_def resp_id_success resp_id_failure
      split: sum.split profile_slot.split)

lemma standalone_toolcall_id:
  "standalone_handleToolCall cfg html params rid = Inr resp \<Longrightarrow> resp_id resp = rid"
  by (auto simp: standalone_handleToolCall_def Let_def resp_id_failure getprofile_id
      split: if_splits sum.splits)

lemma standalone_resource_id:
  "standalone_handleResourceRead rt cfg html params rid = Inr resp \<Longrightarrow> resp_id resp = rid"
  by (auto simp: standalone_handleResourceRead_def Let_def resp_id_success resp_id_failure
      split: if_splits sum.splits)

lemma standalone_id: "resp_id (standalone_handleRequest rt cfg html request) = req_id request"
  unfolding standalone_handleRequest_def Let_def
  by (rule resp_id_catch)
     (auto simp: resp_id_success
       dest: standalone_toolcall_id standalone_resource_id method_not_found_id split: if_splits)

text \<open>
  Claim C4. A request that carries an id \<open>i\<close> is answered with the id \<open>i\<close>, the same value
  of the same type: number, string or \<^verbatim>\<open>null\<close>.
\<close>

theorem response_id_equals_request_id:
  "req_id request = Some i \<Longrightarrow>
   resp_id (simple_handleRequest rt request) = Some i
   \<and> resp_id (standalone_handleRequest rt cfg html request) = Some i"
  by (simp add: simple_id standalone_id)

theorem response_id_equals_request_id_witness:
  "resp_id (simple_handleRequest sample_runtime
      \<lparr>req_method = Some (JStr ''tools/list''), req_params = None,
       req_id = Some (JNum (Finite ''7''))\<rparr>) = Some (JNum (Finite ''7''))
   \<and> resp_id (simple_handleRequest sample_runtime
      \<lparr>req_method = Some (JStr ''tools/list''), req_params = None,
       req_id = Some (JNum (Finite ''7''))\<rparr>) \<noteq> Some (JStr ''7'')"
  using response_id_equals_request_id
    [of "\<lparr>req_method = Some (JStr ''tools/list''), req_params = None,
          req_id = Some (JNum (Finite ''7''))\<rparr>" "JNum (Finite ''7'')" sample_runtime]
  by simp

subsection \<open>Missing params\<close>

text \<open>
  Claim C9. When \<^verbatim>\<open>params\<close> is absent, \<^verbatim>\<open>tools/call\<close> and \<^verbatim>\<open>resources/read\<close> are
  answered with the error -32603, message \<^verbatim>\<open>Internal error\<close>, whose \<^verbatim>\<open>data\<close> is the
  message of the TypeError that destructuring \<^verbatim>\<open>undefined\<close> raised: the catch-all of
  \<^verbatim>\<open>handleRequest\<close> took it, in both classes.
\<close>

theorem missing_params_is_internal_error:
  "req_params request = None \<Longrightarrow>
     (req_method request = Some (JStr ''tools/call'') \<longrightarrow>
        simple_handleRequest rt request =
          failure (req_id request) (- 32603) ''Internal error''
            (Some (cannot_destructure ''name'' ''params'' None))
        \<and> standalone_handleRequest rt cfg html request =
          failure (req_id request) (- 32603) ''Internal error''
            (Some (cannot_destructure ''name'' ''params'' None)))
   \<and> (req_method request = Some (JStr ''resources/read'') \<longrightarrow>
        simple_handleRequest rt request =
          failure (req_id request) (- 32603) ''Internal error''
            (Some (cannot_destructure ''uri'' ''params'' None))
        \<and> standalone_handleRequest rt cfg html request =
          failure (req_id request) (- 32603) ''Internal error''
            (Some (cannot_destructure ''uri'' ''params'' None)))"
  by (simp add: simple_handleRequest_def Let_def simple_handleToolCall_def
      simple_handleResourceRead_def standalone_handleRequest_def standalone_handleToolCall_def
      standalone_handleResourceRead_def catch_internal_def)

theorem missing_params_is_internal_error_witness:
  "simple_handleRequest sample_runtime
     \<lparr>req_method = Some (JStr ''tools/call''), req_params = None, req_id = Some (JNum (Finite ''7''))\<rparr>
     = \<lparr>resp_jsonrpc = ''2.0'', resp_id = Some (JNum (Finite ''7'')), resp_result = None,
        resp_error = Some \<lparr>err_code = - 32603, err_message = ''Internal error'',
          err_data = Some (''Cannot destructure property '' @ [CHR 0x27] @ ''name'' @ [CHR 0x27]
            @ '' of '' @ [CHR 0x27] @ ''params'' @ [CHR 0x27] @ '' as it is undefined.'')\<rparr>\<rparr>"
  using missing_params_is_internal_error
    [of "\<lparr>req_method = Some (JStr ''tools/call''), req_params = None,
          req_id = Some (JNum (Finite ''7''))\<rparr>" sample_runtime]
  by (simp add: failure_def cannot_destructure_def)

section \<open>Properties of the stream transport\<close>

lemma split_newline_nonempty: "split_newline s \<noteq> []"
  by (induction s) (simp_all add: Let_def)

lemma split_newline_pieces: "list_all no_newline (split_newline s)"
proof (induction s)
  case Nil
  show ?case by (simp add: no_newline_def)
next
  case (Cons c s)
  with split_newline_nonempty [of s] show ?case
    by (cases "split_newline s") (auto simp: no_newline_def Let_def)
qed

lemma split_newline_single: "no_newline s \<Longrightarrow> split_newline s = [s]"
  by (induction s) (auto simp: no_newline_def Let_def)

lemma split_newline_line:
  "no_newline l \<Longrightarrow> split_newline (l @ CHR 0x0A # s) = l # split_newline s"
  by (induction l) (auto simp: no_newline_def Let_def)

lemma split_newline_unlines:
  "list_all no_newline ls \<Longrightarrow> no_newline rest \<Longrightarrow> split_newline (unlines ls @ rest) = ls @ [rest]"
  by (induction ls) (simp_all add: unlines_def split_newline_line split_newline_single)

text \<open>Splitting commutes with the arrival of more input: only the last piece is open.\<close>

lemma split_newline_append:
  "split_newline (a @ b)
     = butlast (split_newline a) @ split_newline (last (split_newline a) @ b)"
proof (induction a)
  case Nil
  show ?case by simp
next
  case (Cons c a)
  show ?case
  proof (cases "c = CHR 0x0A")
    case True
    with Cons split_newline_nonempty [of a] show ?thesis by simp
  next
    case False
    show ?thesis
    proof (cases "split_newline a")
      case Nil
      with split_newline_nonempty [of a] show ?thesis by simp
    next
      case (Cons l ls)
      note pieces = this
      show ?thesis
      proof (cases ls)
        case Nil
        with pieces False Cons.IH show ?thesis by (simp add: Let_def)
      next
        case (Cons m ms)
        with pieces False Cons.IH show ?thesis by (simp add: Let_def)
      qed
    qed
  qed
qed

lemma process_lines_append:
  "process_lines rt handle (xs @ ys) = process_lines rt handle xs @ process_lines rt handle ys"
  by (induction xs) simp_all

lemma stdio_step_data:
  "exited st = None \<Longrightarrow>
   stdio_step rt handle st (Data chunk)
     = (st\<lparr>buffer := last (split_newline (buffer st @ chunk))\<rparr>,
        process_lines rt handle (butlast (split_newline (buffer st @ chunk))))"
  by (simp add: stdio_step.simps Let_def)

text \<open>
  How the input is cut into chunks does not matter: a run over the chunks writes what one
  step over their concatenation writes, and ends in the same state.
\<close>

lemma stdio_run_data:
  "exited st = None \<Longrightarrow> no_newline (buffer st) \<Longrightarrow>
   stdio_run rt handle st (map Data chunks) = stdio_step rt handle st (Data (concat chunks))"
proof (induction chunks arbitrary: st)
  case Nil
  then show ?case by (simp add: stdio_step_data split_newline_single)
next
  case (Cons c cs)
  let ?st1 = "st\<lparr>buffer := last (split_newline (buffer st @ c))\<rparr>"
  have e: "exited ?st1 = None" using Cons.prems by simp
  have n: "no_newline (buffer ?st1)"
    using split_newline_pieces [of "buffer st @ c"] split_newline_nonempty [of "buffer st @ c"]
    by (simp add: list_all_iff)
  have "stdio_run rt handle ?st1 (map Data cs) = stdio_step rt handle ?st1 (Data (concat cs))"
    by (rule Cons.IH [OF e n])
  then show ?case
    using Cons.prems split_newline_append [of "buffer st @ c" "concat cs"]
      split_newline_nonempty [of "last (split_newline (buffer st @ c)) @ concat cs"]
    by (simp add: stdio_step_data e process_lines_append butlast_append)
qed

text \<open>
  The input of a whole run, however chunked, is a sequence of closed lines and an open rest.
  Every closed line has been processed, in order; the rest waits in the buffer; the process
  has not exited.
\<close>

lemma stdio_run_lines:
  assumes ls: "list_all no_newline ls" and rest: "no_newline rest"
    and chunks: "concat chunks = unlines ls @ rest"
  shows "stdio_run rt handle initial_stdio (map Data chunks)
     = (\<lparr>buffer = rest, exited = None\<rparr>, process_lines rt handle ls)"
proof -
  have "stdio_run rt handle initial_stdio (map Data chunks)
      = stdio_step rt handle initial_stdio (Data (concat chunks))"
    by (rule stdio_run_data) (simp_all add: initial_stdio_def no_newline_def)
  also have "\<dots> = (\<lparr>buffer = rest, exited = None\<rparr>, process_lines rt handle ls)"
    using split_newline_unlines [OF ls rest] chunks
    by (simp add: stdio_step_data initial_stdio_def)
  finally show ?thesis .
qed

text \<open>
  What one line gets: a line that parses to a request object is answered by
  \<^verbatim>\<open>handleRequest\<close>; the line \<^verbatim>\<open>null\<close>, though JSON, ends in the same \<^verbatim>\<open>catch\<close> as a
  syntax error.
\<close>

lemma well_formed_line_is_dispatched:
  "\<not> blank line \<Longrightarrow> json_parse rt line = Inr v \<Longrightarrow> destructure_request v = Inr request \<Longrightarrow>
   process_line rt handle line = [handle request]"
  by (simp add: process_line_def)

lemma null_line_gets_parse_error:
  "\<not> blank line \<Longrightarrow> json_parse rt line = Inr JNull \<Longrightarrow>
   process_line rt handle line
     = [parse_error_response (cannot_destructure ''method'' ''request'' (Some JNull))]"
  by (simp add: process_line_def)

lemma sample_initialize:
  "process_line sample_runtime (simple_handleRequest sample_runtime) initialize_line
     = [success (Some (JNum (Finite ''7''))) (initialize_result ''mcp-server-connection'' ''1.0.0'')]"
  by (simp add: process_line_def blank_def js_space_def initialize_line_def quoted_def
      sample_runtime_def simple_handleRequest_def catch_internal_def)

lemma initialize_line_no_newline: "no_newline initialize_line"
  by (simp add: no_newline_def initialize_line_def quoted_def)

text \<open>
  Claim C10. A line that is empty or holds only white space is skipped: whatever the
  chunks, the transport writes what it writes for the lines before it and for the lines
  after it, nothing in between, and goes on.
\<close>

theorem blank_line_writes_nothing:
  assumes "blank line"
    and lines: "list_all no_newline (before @ [line] @ after)"
    and rest: "no_newline rest"
    and chunks: "concat chunks = unlines (before @ [line] @ after) @ rest"
  shows "simple_startStdioServer rt (map Data chunks)
     = (\<lparr>buffer = rest, exited = None\<rparr>,
        process_lines rt (simple_handleRequest rt) before
          @ process_lines rt (simple_handleRequest rt) after)
   \<and> standalone_startStdioServer rt cfg html (map Data chunks)
     = (\<lparr>buffer = rest, exited = None\<rparr>,
        process_lines rt (standalone_handleRequest rt cfg html) before
          @ process_lines rt (standalone_handleRequest rt cfg html) after)"
proof -
  have "stdio_run rt handle initial_stdio (map Data chunks)
      = (\<lparr>buffer = rest, exited = None\<rparr>, process_lines rt handle (before @ [line] @ after))"
    for handle
    by (rule stdio_run_lines [OF lines rest chunks])
  with \<open>blank line\<close> show ?thesis
    by (simp add: simple_startStdioServer_def standalone_startStdioServer_def
        process_lines_append process_line_def)
qed

theorem blank_line_writes_nothing_witness:
  "simple_startStdioServer sample_runtime
     (map Data [initialize_line @ [CHR 0x0A] @ '' '', '' '' @ [CHR 0x0A] @ initialize_line,
                [CHR 0x0A] @ ''{''])
     = (\<lparr>buffer = ''{'', exited = None\<rparr>,
        [success (Some (JNum (Finite ''7''))) (initialize_result ''mcp-server-connection'' ''1.0.0''),
         success (Some (JNum (Finite ''7''))) (initialize_result ''mcp-server-connection'' ''1.0.0'')])"
proof -
  have b: "blank ''  ''" by (simp add: blank_def js_space_def)
  have n: "list_all no_newline ([initialize_line] @ [''  ''] @ [initialize_line])"
    using initialize_line_no_newline by (simp add: no_newline_def)
  have r: "no_newline ''{''" by (simp add: no_newline_def)
  have c: "concat [initialize_line @ [CHR 0x0A] @ '' '', '' '' @ [CHR 0x0A] @ initialize_line,
                   [CHR 0x0A] @ ''{'']
           = unlines ([initialize_line] @ [''  ''] @ [initialize_line]) @ ''{''"
    by (simp add: unlines_def)
  show ?thesis
    using blank_line_writes_nothing [OF b n r c, of sample_runtime] sample_initialize
    by simp
qed

text \<open>
  Claim C5, as the code has it. A line that is not blank and that \<^verbatim>\<open>JSON.parse\<close> rejects
  is answered with exactly one envelope: error code -32700, message \<^verbatim>\<open>Parse error\<close>,
  the parser's message as \<^verbatim>\<open>data\<close>, and no \<^verbatim>\<open>id\<close> field at all. The lines before
  and after it are answered as they would be without it, and the process has not exited.
\<close>

theorem malformed_line_gets_parse_error:
  assumes malformed: "json_parse rt line = Inl msg" and "\<not> blank line"
    and lines: "list_all no_newline (before @ [line] @ after)"
    and rest: "no_newline rest"
    and chunks: "concat chunks = unlines (before @ [line] @ after) @ rest"
  shows "simple_startStdioServer rt (map Data chunks)
     = (\<lparr>buffer = rest, exited = None\<rparr>,
        process_lines rt (simple_handleRequest rt) before
          @ [\<lparr>resp_jsonrpc = ''2.0'', resp_id = None, resp_result = None,
              resp_error = Some \<lparr>err_code = - 32700, err_message = ''Parse error'',
                                 err_data = Some msg\<rparr>\<rparr>]
          @ process_lines rt (simple_handleRequest rt) after)
   \<and> standalone_startStdioServer rt cfg html (map Data chunks)
     = (\<lparr>buffer = rest, exited = None\<rparr>,
        process_lines rt (standalone_handleRequest rt cfg html) before
          @ [\<lparr>resp_jsonrpc = ''2.0'', resp_id = None, resp_result = None,
              resp_error = Some \<lparr>err_code = - 32700, err_message = ''Parse error'',
                                 err_data = Some msg\<rparr>\<rparr>]
          @ process_lines rt (standalone_handleRequest rt cfg html) after)"
proof -
  have "stdio_run rt handle initial_stdio (map Data chunks)
      = (\<lparr>buffer = rest, exited = None\<rparr>, process_lines rt handle (before @ [line] @ after))"
    for handle
    by (rule stdio_run_lines [OF lines rest chunks])
  with malformed \<open>\<not> blank line\<close> show ?thesis
    by (simp add: simple_startStdioServer_def standalone_startStdioServer_def
        process_lines_append process_line_def parse_error_response_def)
qed

theorem malformed_line_gets_parse_error_witness:
  "simple_startStdioServer sample_runtime
     (map Data [initialize_line @ [CHR 0x0A] @ ''{'' @ [CHR 0x0A], initialize_line @ [CHR 0x0A]])
     = (\<lparr>buffer = [], exited = None\<rparr>,
        [success (Some (JNum (Finite ''7''))) (initialize_result ''mcp-server-connection'' ''1.0.0''),
         \<lparr>resp_jsonrpc = ''2.0'', resp_id = None, resp_result = None,
          resp_error = Some \<lparr>err_code = - 32700, err_message = ''Parse error'',
                             err_data = Some ''Unexpected end of JSON input''\<rparr>\<rparr>,
         success (Some (JNum (Finite ''7''))) (initialize_result ''mcp-server-connection'' ''1.0.0'')])"
proof -
  have p: "json_parse sample_runtime ''{'' = Inl ''Unexpected end of JSON input''"
    by (simp add: sample_runtime_def initialize_line_def quoted_def)
  have b: "\<not> blank ''{''" by (simp add: blank_def js_space_def)
  have n: "list_all no_newline ([initialize_line] @ [''{''] @ [initialize_line])"
    using initialize_line_no_newline by (simp add: no_newline_def)
  have r: "no_newline []" by (simp add: no_newline_def)
  have c: "concat [initialize_line @ [CHR 0x0A] @ ''{'' @ [CHR 0x0A], initialize_line @ [CHR 0x0A]]
           = unlines ([initialize_line] @ [''{''] @ [initialize_line]) @ []"
    by (simp add: unlines_def)
  show ?thesis
    using malformed_line_gets_parse_error [OF p b n r c] sample_initialize
    by simp
qed

text \<open>
  The claim as written fails twice. The envelope for the malformed line \<^verbatim>\<open>{\<close> has no
  \<^verbatim>\<open>id\<close> field, where the claim wants the field present and \<^verbatim>\<open>null\<close>; and the empty
  line, which is no JSON text either, gets no envelope at all.
\<close>

theorem malformed_line_id_null_counterexample:
  "simple_startStdioServer sample_runtime [Data (''{'' @ [CHR 0x0A])]
     = (initial_stdio, [\<lparr>resp_jsonrpc = ''2.0'', resp_id = None, resp_result = None,
          resp_error = Some \<lparr>err_code = - 32700, err_message = ''Parse error'',
                             err_data = Some ''Unexpected end of JSON input''\<rparr>\<rparr>])
   \<and> resp_id (hd (snd (simple_startStdioServer sample_runtime [Data (''{'' @ [CHR 0x0A])])))
       \<noteq> Some JNull
   \<and> json_parse sample_runtime [] = Inl ''Unexpected end of JSON input''
   \<and> simple_startStdioServer sample_runtime [Data [CHR 0x0A]] = (initial_stdio, [])"
  by (simp add: simple_startStdioServer_def initial_stdio_def process_line_def blank_def
      js_space_def sample_runtime_def initialize_line_def quoted_def parse_error_response_def
      Let_def stdio_step.simps)

section \<open>Properties of the tool handlers\<close>

subsection \<open>calculate\<close>

lemma simple_calculate_request:
  "e \<noteq> [] \<Longrightarrow> simple_handleRequest rt (calculate_request e) =
     (case js_eval rt (sanitize e) of
        Inl msg \<Rightarrow> failure (Some (JNum (Finite ''1''))) (- 32603) ''Calculation error'' (Some msg)
      | Inr r \<Rightarrow> success (Some (JNum (Finite ''1'')))
                  (tool_content [text_block (e @ '' = '' @ result_to_string r)]))"
  by (simp add: simple_handleRequest_def calculate_request_def simple_handleToolCall_def
      simple_calculate_def js_or_def catch_internal_def Let_def split: sum.split)

text \<open>
  Claim C1 fails in SimpleMCPServer. The expression \<^verbatim>\<open>__proto__\<close> holds only characters
  outside the allowed set; the handler does not reject it but removes them, evaluates what
  is left (the empty program) and answers with whatever \<^verbatim>\<open>eval\<close> gave: with Node.js,
  the result envelope \<^verbatim>\<open>__proto__ = undefined\<close>.
\<close>

theorem simple_calculate_evaluates_stripped_text:
  "simple_handleRequest rt (calculate_request ''__proto__'') =
     (case js_eval rt [] of
        Inl msg \<Rightarrow> failure (Some (JNum (Finite ''1''))) (- 32603) ''Calculation error'' (Some msg)
      | Inr r \<Rightarrow> success (Some (JNum (Finite ''1'')))
                  (tool_content [text_block (''__proto__ = '' @ result_to_string r)]))
   \<and> simple_handleRequest sample_runtime (calculate_request ''__proto__'') =
       success (Some (JNum (Finite ''1''))) (tool_content [text_block ''__proto__ = undefined''])"
proof -
  have s: "sanitize ''__proto__'' = []"
    by (simp add: sanitize_def allowed_char_def js_space_def)
  have e: "js_eval sample_runtime [] = Inr (ResOther ''undefined'')"
    by (simp add: sample_runtime_def)
  show ?thesis
    using simple_calculate_request [of "''__proto__''" rt]
      simple_calculate_request [of "''__proto__''" sample_runtime]
    by (simp add: s e split: sum.split)
qed

text \<open>
  Claim C2 fails in SimpleMCPServer. The handler has no finiteness test: for \<^verbatim>\<open>1/0\<close> it
  answers with whatever \<^verbatim>\<open>eval\<close> gave; with Node.js, the result envelope
  \<^verbatim>\<open>1/0 = Infinity\<close>.
\<close>

theorem simple_calculate_returns_infinity:
  "simple_handleRequest rt (calculate_request ''1/0'') =
     (case js_eval rt ''1/0'' of
        Inl msg \<Rightarrow> failure (Some (JNum (Finite ''1''))) (- 32603) ''Calculation error'' (Some msg)
      | Inr r \<Rightarrow> success (Some (JNum (Finite ''1'')))
                  (tool_content [text_block (''1/0 = '' @ result_to_string r)]))
   \<and> simple_handleRequest sample_runtime (calculate_request ''1/0'') =
       success (Some (JNum (Finite ''1''))) (tool_content [text_block ''1/0 = Infinity''])"
proof -
  have s: "sanitize ''1/0'' = ''1/0''"
    by (simp add: sanitize_def allowed_char_def js_space_def)
  have e: "js_eval sample_runtime ''1/0'' = Inr (ResNumber PosInfinity)"
    by (simp add: sample_runtime_def)
  show ?thesis
    using simple_calculate_request [of "''1/0''" rt]
      simple_calculate_request [of "''1/0''" sample_runtime]
    by (simp add: s e split: sum.split)
qed

text \<open>
  The handler of index.ts does what the two claims say: an expression with a character
  outside the set is refused whatever \<^verbatim>\<open>Function\<close> would do with it, and a result
  that is not a finite Number is refused too.
\<close>

lemma sanitize_changes: "\<not> list_all allowed_char e \<Longrightarrow> sanitize e \<noteq> e"
  unfolding sanitize_def by (metis Ball_set filter_id_conv)

lemma sanitize_keeps: "list_all allowed_char e \<Longrightarrow> sanitize e = e"
  unfolding sanitize_def by (simp add: list_all_iff)

lemma not_allowed_nonempty: "\<not> list_all allowed_char e \<Longrightarrow> e \<noteq> []"
  by auto

lemma index_rejects_invalid_characters:
  "\<not> list_all allowed_char e \<Longrightarrow> opt_chain args ''expression'' = Some (JStr e) \<Longrightarrow>
   index_calculate rt args
     = Inl (McpError InternalError (''Calculation error: '' @ invalid_characters))"
  by (simp add: index_calculate_def index_try_calculate_def Let_def sanitize_changes
      not_allowed_nonempty)

lemma starts_with_hd: "starts_with s n \<Longrightarrow> n \<noteq> [] \<Longrightarrow> hd n \<in> set s"
  by (cases s; cases n) auto

lemma str_includes_hd: "str_includes s n \<Longrightarrow> n \<noteq> [] \<Longrightarrow> hd n \<in> set s"
proof (induction s)
  case Nil
  then show ?case by simp
next
  case (Cons c cs)
  then show ?case using starts_with_hd [of "c # cs" n] by auto
qed

lemma allowed_no_underscores:
  assumes "list_all allowed_char e"
  shows "\<not> str_includes e ''__'' \<and> \<not> str_includes e ''constructor''"
proof -
  have u: "\<not> allowed_char CHR ''_''" by (simp add: allowed_char_def js_space_def)
  have c: "\<not> allowed_char CHR ''c''" by (simp add: allowed_char_def js_space_def)
  from assms u have "CHR ''_'' \<notin> set e" by (auto simp: list_all_iff)
  moreover from assms c have "CHR ''c'' \<notin> set e" by (auto simp: list_all_iff)
  ultimately show ?thesis
    using str_includes_hd [of e "''__''"] str_includes_hd [of e "''constructor''"] by auto
qed

lemma index_rejects_non_finite:
  "opt_chain args ''expression'' = Some (JStr e) \<Longrightarrow> e \<noteq> [] \<Longrightarrow> list_all allowed_char e \<Longrightarrow>
   js_Function rt (function_body e) = Inr r \<Longrightarrow> \<not> is_finite r \<Longrightarrow>
   index_calculate rt args
     = Inl (McpError InternalError (''Calculation error: '' @ ''Result is not a finite number''))"
  using allowed_no_underscores [of e]
  by (simp add: index_calculate_def index_try_calculate_def Let_def sanitize_keeps)

lemma index_result_is_finite:
  assumes "index_calculate rt args = Inr out"
  shows "\<exists>e r. opt_chain args ''expression'' = Some (JStr e) \<and> list_all allowed_char e
      \<and> js_Function rt (function_body e) = Inr r \<and> is_finite r
      \<and> out = tool_content [text_block (e @ '' = '' @ result_to_string r)]"
proof (cases "opt_chain args ''expression''")
  case None
  with assms show ?thesis by (simp add: index_calculate_def)
next
  case (Some v)
  with assms show ?thesis
    by (cases v)
       (auto simp: index_calculate_def index_try_calculate_def Let_def sanitize_def list_all_iff
         filter_id_conv split: if_splits sum.splits)
qed

subsection \<open>echo\<close>

text \<open>
  Claim C6, as the code has it. In index.ts a \<^verbatim>\<open>text\<close> that is absent or falsy (the
  empty string, \<^verbatim>\<open>null\<close>) makes the handler fail with \<^verbatim>\<open>InvalidParams\<close>,
  \<^verbatim>\<open>Text parameter is required\<close>. In index.ts and in SimpleMCPServer a \<^verbatim>\<open>text\<close> that is
  a non-empty string is answered with exactly one text block, \<^verbatim>\<open>Echo: \<close> followed by
  the text.
\<close>

theorem echo_requires_truthy_text:
  "get_prop p ''name'' = Some (JStr ''echo'') \<Longrightarrow>
   text = opt_chain (get_prop p ''arguments'') ''text'' \<Longrightarrow>
     (\<not> truthy text \<longrightarrow>
        index_callTool rt (Some p) = Inl (McpError InvalidParams ''Text parameter is required''))
   \<and> (\<forall>t. text = Some (JStr t) \<and> t \<noteq> [] \<longrightarrow>
        index_callTool rt (Some p) = Inr (tool_content [text_block (''Echo: '' @ t)])
        \<and> simple_handleToolCall rt (Some p) rid
            = Inr (success rid (tool_content [text_block (''Echo: '' @ t)])))"
  by (cases p)
     (auto simp: index_callTool_def index_echo_def simple_handleToolCall_def Let_def js_or_def)

theorem echo_requires_truthy_text_witness:
  "index_callTool sample_runtime (Some (echo_params []))
      = Inl (McpError InvalidParams ''Text parameter is required'')
   \<and> index_callTool sample_runtime (Some (echo_params [(''text'', JStr ''hi'')]))
      = Inr (tool_content [text_block ''Echo: hi''])
   \<and> simple_handleToolCall sample_runtime (Some (echo_params [(''text'', JStr ''hi'')]))
        (Some (JNum (Finite ''7'')))
      = Inr (success (Some (JNum (Finite ''7''))) (tool_content [text_block ''Echo: hi'']))"
  using echo_requires_truthy_text [of "echo_params []" None sample_runtime]
    echo_requires_truthy_text [of "echo_params [(''text'', JStr ''hi'')]" "Some (JStr ''hi'')"
      sample_runtime "Some (JNum (Finite ''7''))"]
  by (simp add: echo_params_def)

text \<open>
  The claim as written fails in index.ts on a \<^verbatim>\<open>text\<close> that is present and empty: the
  call fails, where the claim wants the block \<^verbatim>\<open>Echo: \<close>.
\<close>

theorem echo_empty_text_counterexample:
  "index_callTool sample_runtime (Some (echo_params [(''text'', JStr [])]))
      = Inl (McpError InvalidParams ''Text parameter is required'')
   \<and> index_callTool sample_runtime (Some (echo_params [(''text'', JStr [])]))
      \<noteq> Inr (tool_content [text_block (''Echo: '' @ [])])"
  by (simp add: echo_params_def index_callTool_def index_echo_def Let_def)

text \<open>
  SimpleMCPServer has no test at all: without \<^verbatim>\<open>text\<close> it echoes the empty string.
\<close>

lemma simple_echo_without_text:
  "simple_handleToolCall rt (Some (echo_params [])) rid
     = Inr (success rid (tool_content [text_block ''Echo: '']))"
  by (simp add: echo_params_def simple_handleToolCall_def Let_def js_or_def)

subsection \<open>get_profile\<close>

lemma slot_of_key:
  "key \<notin> set object_prototype_keys \<Longrightarrow>
   (case profiles_get key of Some v \<Rightarrow> v | None \<Rightarrow> Own profile_default)
     = Own (effective_profile key)"
  by (simp add: profiles_get_def effective_profile_def split: option.split)

lemma getProfileSync_of_key:
  "to_string profileId = Inr key \<Longrightarrow> key \<notin> set object_prototype_keys \<Longrightarrow>
   getProfileSync profileId = Inr (Own (effective_profile key))"
  by (simp add: getProfileSync_def profiles_get_def effective_profile_def split: option.split)

text \<open>
  Claim C7, as the code has it. The id looked up is the \<^verbatim>\<open>profileId\<close> argument when it
  is truthy and the configured default id otherwise, as a string \<open>key\<close>. Unless \<open>key\<close>
  names a member of \<^verbatim>\<open>Object.prototype\<close>, the call succeeds with the data of the entry
  under \<open>key\<close>, or, when the collection has no such entry, with the data of the entry under
  \<^verbatim>\<open>default\<close>: in StandaloneProfileServer and in enhanced-profile-server.ts.
\<close>

theorem get_profile_falls_back_to_default_entry:
  "to_string (js_or (opt_chain args ''profileId'') (Some (JStr (defaultProfileId cfg)))) = Inr key \<Longrightarrow>
   key \<notin> set object_prototype_keys \<Longrightarrow>
   to_string (js_or (opt_chain args ''profileId'') (Some (JStr (env_or env_default ''default''))))
     = Inr key' \<Longrightarrow>
   key' \<notin> set object_prototype_keys \<Longrightarrow>
   handleGetProfile cfg html args rid
     = success rid (profile_result (html (effective_profile key)) (effective_profile key))
   \<and> enhanced_get_profile env_default html args
     = Inr (tool_content [text_block
         (enhanced_profile_text (html (effective_profile key')) (effective_profile key'))])"
  using slot_of_key [of key']
  by (simp add: handleGetProfile_def getProfileSync_of_key enhanced_get_profile_def Let_def)

lemma admin_config_default: "defaultProfileId admin_config = ''admin''"
  by (simp add: admin_config_def standalone_constructor_def)

lemma effective_profile_admin: "effective_profile ''admin'' = profile_admin"
  by (simp add: effective_profile_def profiles_def)

lemma effective_profile_unknown: "effective_profile ''nonexistent-id'' = profile_default"
  by (simp add: effective_profile_def profiles_def)

theorem get_profile_falls_back_to_default_entry_witness:
  "handleGetProfile admin_config sample_html (Some (JObj [(''profileId'', JStr ''nonexistent-id'')]))
      (Some (JNum (Finite ''1'')))
     = success (Some (JNum (Finite ''1'')))
         (profile_result (sample_html profile_default) profile_default)
   \<and> enhanced_get_profile (Some ''admin'') sample_html
        (Some (JObj [(''profileId'', JStr ''nonexistent-id'')]))
     = Inr (tool_content [text_block
         (enhanced_profile_text (sample_html profile_default) profile_default)])
   \<and> handleGetProfile admin_config sample_html (Some (JObj [])) (Some (JNum (Finite ''1'')))
     = success (Some (JNum (Finite ''1''))) (profile_result (sample_html profile_admin) profile_admin)
   \<and> enhanced_get_profile (Some ''admin'') sample_html (Some (JObj []))
     = Inr (tool_content [text_block
         (enhanced_profile_text (sample_html profile_admin) profile_admin)])"
  using get_profile_falls_back_to_default_entry
      [of "Some (JObj [(''profileId'', JStr ''nonexistent-id'')])" admin_config "''nonexistent-id''"
          "Some ''admin''" "''nonexistent-id''" sample_html "Some (JNum (Finite ''1''))"]
    get_profile_falls_back_to_default_entry
      [of "Some (JObj [])" admin_config "''admin''" "Some ''admin''" "''admin''" sample_html
          "Some (JNum (Finite ''1''))"]
  by (simp add: js_or_def admin_config_default effective_profile_admin effective_profile_unknown
      object_prototype_keys_def)

text \<open>
  The claim as written fails when the configured default is not \<^verbatim>\<open>default\<close>. With
  \<^verbatim>\<open>DEFAULT_PROFILE_ID=admin\<close> the configured default profile is the administrator's,
  but an id that matches nothing is answered with the entry under \<^verbatim>\<open>default\<close>.
\<close>

theorem get_profile_configured_default_counterexample:
  "handleGetProfile admin_config sample_html (Some (JObj [(''profileId'', JStr ''nonexistent-id'')]))
      (Some (JNum (Finite ''1'')))
     = success (Some (JNum (Finite ''1'')))
         (profile_result (sample_html profile_default) profile_default)
   \<and> getProfileSync (Some (JStr (defaultProfileId admin_config))) = Inr (Own profile_admin)
   \<and> handleGetProfile admin_config sample_html (Some (JObj [(''profileId'', JStr ''nonexistent-id'')]))
      (Some (JNum (Finite ''1'')))
     \<noteq> success (Some (JNum (Finite ''1'')))
         (profile_result (sample_html profile_admin) profile_admin)"
  by (simp add: handleGetProfile_def getProfileSync_def profiles_get_def profiles_def js_or_def
      admin_config_default object_prototype_keys_def success_def profile_result_def
      tool_content_def text_block_def sample_html_def profile_default_def profile_admin_def Let_def)

text \<open>
  An id that names a member of \<^verbatim>\<open>Object.prototype\<close> is found through the prototype
  chain; the page template then throws, and the call fails.
\<close>

lemma get_profile_prototype_key:
  "handleGetProfile cfg html (Some (JObj [(''profileId'', JStr ''constructor'')])) rid
     = failure rid (- 32603) ''Failed to fetch profile'' (Some reading_map)"
  by (simp add: handleGetProfile_def getProfileSync_def profiles_get_def profiles_def js_or_def
      object_prototype_keys_def Let_def)

section \<open>Properties of the token middleware\<close>

lemma stripped_is_shorter:
  assumes "drop 6 h \<noteq> []"
  shows "dropWhile js_space (drop 6 h) \<noteq> h"
proof
  assume e: "dropWhile js_space (drop 6 h) = h"
  have "length (dropWhile js_space (drop 6 h)) \<le> length (drop 6 h)"
    by (rule length_dropWhile_le)
  moreover from assms have "length (drop 6 h) < length h" by simp
  ultimately show False using e by simp
qed

text \<open>
  Claim C8, as the code has it. \<^verbatim>\<open>verifyToken\<close> of the server with the full middleware
  sets both slots to the token of the request, whatever they held: the header without the
  word \<^verbatim>\<open>Bearer\<close> (any letter case) and the whole run of white space after it, and no
  token when the header is absent or empty, does not begin so, or nothing follows.
  \<^verbatim>\<open>verifyToken\<close> of enhanced-profile-server.ts does the same whenever the header is
  absent or holds a token.
\<close>

theorem verifyToken_stores_bearer_token:
  "verifyToken authHeader st
     = \<lparr>currentAccessToken = bearer_token authHeader, userAccessToken = bearer_token authHeader\<rparr>
   \<and> (authHeader = None \<or> bearer_token authHeader \<noteq> None \<longrightarrow>
        enhanced_verifyToken authHeader previous = bearer_token authHeader)"
proof (cases authHeader)
  case None
  then show ?thesis
    by (simp add: verifyToken_def setUserToken_def bearer_token_def enhanced_verifyToken_def)
next
  case (Some h)
  show ?thesis
  proof (cases "has_bearer_prefix h")
    case True
    then have d: "drop 6 h \<noteq> []" by (simp add: has_bearer_prefix_def)
    then have "h \<noteq> []" by auto
    with Some True d stripped_is_shorter [OF d] show ?thesis
      by (auto simp: verifyToken_def setUserToken_def bearer_token_def enhanced_verifyToken_def
          strip_bearer_def has_bearer_prefix_def Let_def)
  next
    case False
    with Some show ?thesis
      by (auto simp: verifyToken_def setUserToken_def bearer_token_def enhanced_verifyToken_def
          strip_bearer_def has_bearer_prefix_def Let_def)
  qed
qed

theorem verifyToken_stores_bearer_token_witness:
  "verifyToken (Some ''bEARER  tok'')
      \<lparr>currentAccessToken = Some ''old'', userAccessToken = Some ''old''\<rparr>
     = \<lparr>currentAccessToken = Some ''tok'', userAccessToken = Some ''tok''\<rparr>
   \<and> enhanced_verifyToken (Some ''bEARER  tok'') (Some ''old'') = Some ''tok''
   \<and> verifyToken None \<lparr>currentAccessToken = Some ''old'', userAccessToken = Some ''old''\<rparr>
     = no_tokens
   \<and> enhanced_verifyToken None (Some ''old'') = None"
  using verifyToken_stores_bearer_token
      [of "Some ''bEARER  tok''" "\<lparr>currentAccessToken = Some ''old'', userAccessToken = Some ''old''\<rparr>"
          "Some ''old''"]
    verifyToken_stores_bearer_token
      [of None "\<lparr>currentAccessToken = Some ''old'', userAccessToken = Some ''old''\<rparr>" "Some ''old''"]
  by (simp add: bearer_token_def has_bearer_prefix_def ascii_lower_def js_space_def no_tokens_def)

text \<open>
  The claim as written speaks of the prefix \<^verbatim>\<open>Bearer\<close> and one space. A header with a
  tab after the word does not have that prefix, yet its token is stored; and after
  \<^verbatim>\<open>Bearer\<close> and two spaces the code stores \<^verbatim>\<open>abc\<close>, not the remainder
  of the prefix, which begins with a space.
\<close>

theorem verifyToken_white_space_counterexample:
  "\<not> starts_with (map ascii_lower (''Bearer'' @ [CHR 0x09] @ ''abc'')) ''bearer ''
   \<and> verifyToken (Some (''Bearer'' @ [CHR 0x09] @ ''abc'')) no_tokens
       = \<lparr>currentAccessToken = Some ''abc'', userAccessToken = Some ''abc''\<rparr>
   \<and> starts_with (map ascii_lower ''Bearer  abc'') ''bearer ''
   \<and> drop (length ''Bearer '') ''Bearer  abc'' = '' abc''
   \<and> verifyToken (Some ''Bearer  abc'') no_tokens
       = \<lparr>currentAccessToken = Some ''abc'', userAccessToken = Some ''abc''\<rparr>"
  by (simp add: verifyToken_def strip_bearer_def setUserToken_def no_tokens_def ascii_lower_def
      js_space_def Let_def)

text \<open>
  \<^verbatim>\<open>verifyToken\<close> of enhanced-profile-server.ts has neither test of its sibling: a header
  of another scheme is stored whole, and an empty remainder is stored as the empty string.
\<close>

lemma enhanced_verifyToken_keeps_other_header:
  "enhanced_verifyToken (Some ''Basic abc'') previous = Some ''Basic abc''
   \<and> enhanced_verifyToken (Some ''Bearer '') previous = Some []"
  by (simp add: enhanced_verifyToken_def strip_bearer_def ascii_lower_def js_space_def Let_def)

end
